theory Spec2Isabelle
  imports Main "HOL-Library.Multiset"
begin

section \<open>Roles, actions and the configuration table\<close>

text \<open>
  The embedding follows \<^verbatim>\<open>src/coup_basic.py\<close>. Enumerations are datatypes, the
  dataclasses and the classes are records, Python's unbounded integers are \<open>int\<close>.
  Display names, the per-player action log and every \<^verbatim>\<open>print\<close> are left out: no
  function of the engine reads them.
\<close>

datatype Role = DUKE | ASSASSIN | CAPTAIN | AMBASSADOR | CONTESSA

datatype ActionType = INCOME | FOREIGN_AID | COUP | TAX | ASSASSINATE | STEAL | EXCHANGE

record ActionMetadata =
  requires_target :: bool
  required_role :: "Role option"
  counterable_by :: "Role list"
  coins_cost :: int

fun ACTION_CONFIG :: "ActionType \<Rightarrow> ActionMetadata" where
  "ACTION_CONFIG INCOME =
     \<lparr>requires_target = False, required_role = None, counterable_by = [], coins_cost = 0\<rparr>"
| "ACTION_CONFIG FOREIGN_AID =
     \<lparr>requires_target = False, required_role = None, counterable_by = [DUKE], coins_cost = 0\<rparr>"
| "ACTION_CONFIG COUP =
     \<lparr>requires_target = True, required_role = None, counterable_by = [], coins_cost = 7\<rparr>"
| "ACTION_CONFIG TAX =
     \<lparr>requires_target = False, required_role = Some DUKE, counterable_by = [], coins_cost = 0\<rparr>"
| "ACTION_CONFIG ASSASSINATE =
     \<lparr>requires_target = True, required_role = Some ASSASSIN, counterable_by = [CONTESSA],
      coins_cost = 3\<rparr>"
| "ACTION_CONFIG STEAL =
     \<lparr>requires_target = True, required_role = Some CAPTAIN,
      counterable_by = [CAPTAIN, AMBASSADOR], coins_cost = 0\<rparr>"
| "ACTION_CONFIG EXCHANGE =
     \<lparr>requires_target = False, required_role = Some AMBASSADOR, counterable_by = [],
      coins_cost = 0\<rparr>"

text \<open>
  The exceptions the engine can end with. \<open>Nontermination\<close> is not an exception: it
  marks a \<^verbatim>\<open>while\<close> loop that never exits.
\<close>

datatype error = ValueError | IndexError | TypeError | AttributeError | ZeroDivisionError
  | Nontermination

section \<open>The deck\<close>

text \<open>
  \<^verbatim>\<open>Deck._cards\<close> is a list whose last element is the top card. \<^verbatim>\<open>random.shuffle\<close>
  is the Fisher-Yates loop of the standard library,
  \<^verbatim>\<open>for i in reversed(range(1, len(x))): j = randbelow(i + 1); x[i], x[j] = x[j], x[i]\<close>;
  the random source is a parameter: \<open>rnd i\<close> is the raw number drawn at position \<open>i\<close>,
  reduced below \<open>i + 1\<close> as \<^verbatim>\<open>randbelow\<close> does.
\<close>

fun shuffle_from :: "(nat \<Rightarrow> nat) \<Rightarrow> nat \<Rightarrow> 'a list \<Rightarrow> 'a list" where
  "shuffle_from rnd 0 xs = xs"
| "shuffle_from rnd (Suc i) xs =
     (let j = rnd (Suc i) mod (Suc i + 1)
      in shuffle_from rnd i (xs[Suc i := xs ! j, j := xs ! Suc i]))"

definition shuffle :: "(nat \<Rightarrow> nat) \<Rightarrow> 'a list \<Rightarrow> 'a list" where
  "shuffle rnd xs = shuffle_from rnd (length xs - 1) xs"

definition new_deck :: "(nat \<Rightarrow> nat) \<Rightarrow> nat \<Rightarrow> Role list" where
  "new_deck rnd i =
     shuffle rnd (concat (map (\<lambda>r. replicate (3 + i) r)
       [DUKE, ASSASSIN, CAPTAIN, AMBASSADOR, CONTESSA]))"

text \<open>
  \<^verbatim>\<open>draw\<close> checks the size first and then pops \<open>num\<close> times from the end, so the
  first drawn card is the last card of the list. The result is the drawn cards and the
  deck that is left.
\<close>

definition draw :: "nat \<Rightarrow> Role list \<Rightarrow> error + (Role list \<times> Role list)" where
  "draw num cards =
     (if num > length cards then Inl ValueError
      else Inr (take num (rev cards), take (length cards - num) cards))"

definition return_cards :: "(nat \<Rightarrow> nat) \<Rightarrow> Role list \<Rightarrow> Role list \<Rightarrow> Role list" where
  "return_cards rnd cards deck_cards = shuffle rnd (deck_cards @ cards)"

definition remaining :: "Role list \<Rightarrow> nat" where
  "remaining cards = length cards"

section \<open>Influences and players\<close>

record Influence =
  role :: Role
  is_revealed :: bool

definition reveal :: "Influence \<Rightarrow> Influence" where
  "reveal c = c\<lparr>is_revealed := True\<rparr>"

text \<open>
  \<^verbatim>\<open>Player.alive\<close> is a cache that the property \<^verbatim>\<open>is_alive\<close> overwrites on every
  read and that only \<^verbatim>\<open>__str__\<close> reads; the model has the property alone.
\<close>

record Player =
  player_id :: int
  coins :: int
  influence :: "Influence list"

definition new_player :: "int \<Rightarrow> Role list \<Rightarrow> Player" where
  "new_player pid cards =
     \<lparr>player_id = pid, coins = 2,
      influence = map (\<lambda>c. \<lparr>role = c, is_revealed = False\<rparr>) (take 2 cards)\<rparr>"

definition is_alive :: "Player \<Rightarrow> bool" where
  "is_alive p = (\<not> list_all is_revealed (influence p))"

definition get_hidden_cards :: "Player \<Rightarrow> Influence list" where
  "get_hidden_cards p = filter (\<lambda>i. \<not> is_revealed i) (influence p)"

definition hidden_cards :: "Player \<Rightarrow> Role list" where
  "hidden_cards p = map role (filter (\<lambda>i. \<not> is_revealed i) (influence p))"

definition revealed_cards :: "Player \<Rightarrow> Role list" where
  "revealed_cards p = map role (filter is_revealed (influence p))"

definition has_hidden_role :: "Player \<Rightarrow> Role \<Rightarrow> bool" where
  "has_hidden_role p r = list_ex (\<lambda>i. role i = r \<and> \<not> is_revealed i) (influence p)"

definition get_coin :: "int \<Rightarrow> Player \<Rightarrow> Player" where
  "get_coin n p = p\<lparr>coins := coins p + n\<rparr>"

definition lose_coin :: "int \<Rightarrow> Player \<Rightarrow> Player" where
  "lose_coin n p = p\<lparr>coins := coins p - n\<rparr>"

definition get_available_actions :: "Player \<Rightarrow> ActionType list" where
  "get_available_actions p =
     (let actions = [INCOME, STEAL, TAX, EXCHANGE, FOREIGN_AID];
          actions = (if coins p \<ge> 3 then actions @ [ASSASSINATE] else actions);
          actions = (if coins p \<ge> 7 then actions @ [COUP] else actions);
          actions = (if coins p \<ge> 10 then [COUP] else actions)
      in actions)"

text \<open>
  \<^verbatim>\<open>lose_influence\<close> of \<^verbatim>\<open>HumanPlayer\<close> and \<^verbatim>\<open>ComputerPlayer\<close>: nothing happens
  without a hidden card, a single hidden card is turned without a choice, otherwise the
  card \<^verbatim>\<open>hidden_cards[pick]\<close> is turned, where \<open>pick\<close> is the decision (the typed
  number minus one, or \<^verbatim>\<open>int(random.random() * len(hidden_cards))\<close>). The hidden cards
  are the objects of the hand itself, so the card turned is the \<open>pick\<close>-th face-down
  card of the hand, in place.
\<close>

fun reveal_nth_hidden :: "nat \<Rightarrow> Influence list \<Rightarrow> Influence list" where
  "reveal_nth_hidden k [] = []"
| "reveal_nth_hidden k (c # cs) =
     (if is_revealed c then c # reveal_nth_hidden k cs
      else (case k of 0 \<Rightarrow> reveal c # cs | Suc k' \<Rightarrow> c # reveal_nth_hidden k' cs))"

definition lose_influence :: "nat \<Rightarrow> Player \<Rightarrow> error + (Role option \<times> Player)" where
  "lose_influence pick p =
     (let hidden = get_hidden_cards p in
      if hidden = [] then Inr (None, p)
      else if length hidden = 1 then
        Inr (Some (role (hidden ! 0)), p\<lparr>influence := reveal_nth_hidden 0 (influence p)\<rparr>)
      else if pick < length hidden then
        Inr (Some (role (hidden ! pick)), p\<lparr>influence := reveal_nth_hidden pick (influence p)\<rparr>)
      else Inl IndexError)"

text \<open>\<^verbatim>\<open>ComputerPlayer.select_cards_to_keep\<close>: the heaviest \<open>keep_count\<close> cards.\<close>

fun weights :: "Role \<Rightarrow> int" where
  "weights DUKE = 5"
| "weights ASSASSIN = 4"
| "weights CAPTAIN = 3"
| "weights AMBASSADOR = 2"
| "weights CONTESSA = 1"

definition computer_select_cards_to_keep :: "Role list \<Rightarrow> Role list \<Rightarrow> nat \<Rightarrow> Role list" where
  "computer_select_cards_to_keep new_cards hidden keep_count =
     (let all_cards = new_cards @ hidden;
          sorted_cards = sort_key (\<lambda>c. - weights c) all_cards
      in take keep_count sorted_cards)"

section \<open>The game manager\<close>

text \<open>
  Player objects are referred to by their position in \<^verbatim>\<open>GameManager.players\<close>: the
  list is never reordered after set-up, so a position is the identity of the object, and
  a method that mutates a player updates the list at that position.
  \<^verbatim>\<open>total_player_num\<close> is fixed by the constructor, which creates exactly that many
  players; the model reads it as the length of the list. \<^verbatim>\<open>current_player\<close> is always
  assigned together with \<^verbatim>\<open>current_player_index\<close> and is the player at that position.

  Two fields are bookkeeping of the model and not of the source: \<open>tick\<close> counts the
  requests made to the decision-makers so far, and \<open>trace\<close> lists them in order.
\<close>

datatype Event =
    Asked_challenge nat nat Role
  | Asked_counter nat ActionType
  | Resolved nat nat Role

record GameManager =
  deck :: "Role list"
  players :: "Player list"
  current_player_index :: nat
  turn_count :: nat
  tick :: nat
  trace :: "Event list"

definition update_player :: "nat \<Rightarrow> (Player \<Rightarrow> Player) \<Rightarrow> GameManager \<Rightarrow> GameManager" where
  "update_player i f gm = gm\<lparr>players := (players gm)[i := f (players gm ! i)]\<rparr>"

fun find_index_of :: "('a \<Rightarrow> bool) \<Rightarrow> 'a list \<Rightarrow> nat option" where
  "find_index_of P [] = None"
| "find_index_of P (x # xs) = (if P x then Some 0 else map_option Suc (find_index_of P xs))"

text \<open>
  \<^verbatim>\<open>get_player_by_id\<close>: the comparison \<^verbatim>\<open>0 <= pid\<close> raises a TypeError when the id
  is \<^verbatim>\<open>None\<close>; an id out of range raises IndexError; otherwise the first player with
  that id, or \<^verbatim>\<open>None\<close>.
\<close>

definition get_player_by_id :: "GameManager \<Rightarrow> int option \<Rightarrow> error + nat option" where
  "get_player_by_id gm pid_opt =
     (case pid_opt of
        None \<Rightarrow> Inl TypeError
      | Some pid \<Rightarrow>
          if \<not> (0 \<le> pid \<and> pid < int (length (players gm))) then Inl IndexError
          else Inr (find_index_of (\<lambda>p. player_id p = pid) (players gm)))"

text \<open>
  \<^verbatim>\<open>get_current_player\<close> walks the seats after the current one until it meets a living
  player. The loop changes no state, so after as many steps as there are seats it has
  seen every player dead and never exits: the scan is bounded by the number of seats and
  its failure is \<open>Nontermination\<close>.
\<close>

fun scan_alive :: "Player list \<Rightarrow> nat \<Rightarrow> nat \<Rightarrow> nat option" where
  "scan_alive ps t 0 = None"
| "scan_alive ps t (Suc fuel) =
     (if is_alive (ps ! t) then Some t else scan_alive ps ((t + 1) mod length ps) fuel)"

definition get_current_player :: "GameManager \<Rightarrow> (error + nat) \<times> GameManager" where
  "get_current_player gm =
     (let n = length (players gm) in
      if n = 0 then (Inl ZeroDivisionError, gm)
      else (case scan_alive (players gm) ((current_player_index gm + 1) mod n) n of
              None \<Rightarrow> (Inl Nontermination, gm)
            | Some t \<Rightarrow> (Inr t, gm\<lparr>current_player_index := t\<rparr>)))"

text \<open>
  \<^verbatim>\<open>exchange_single_card\<close>. \<^verbatim>\<open>list.remove\<close> deletes the first element equal to
  the card found; dataclass equality compares role and face, so it is \<open>remove1\<close>.
\<close>

definition exchange_single_card ::
  "(nat \<Rightarrow> nat) \<Rightarrow> nat \<Rightarrow> Role \<Rightarrow> GameManager \<Rightarrow> (error + bool) \<times> GameManager" where
  "exchange_single_card rnd i role_to_return gm =
     (let player = players gm ! i;
          hidden = get_hidden_cards player in
      if hidden = [] then (Inr False, gm)
      else (case find (\<lambda>card. role card = role_to_return) hidden of
              None \<Rightarrow> (Inr False, gm)
            | Some target_card \<Rightarrow>
                (let hand1 = remove1 target_card (influence player);
                     gm1 = gm\<lparr>players := (players gm)[i := player\<lparr>influence := hand1\<rparr>],
                              deck := return_cards rnd [role_to_return] (deck gm)\<rparr>
                 in case draw 1 (deck gm1) of
                      Inl e \<Rightarrow> (Inl e, gm1)
                    | Inr (drawn, rest) \<Rightarrow>
                        (case drawn of
                           [] \<Rightarrow> (Inl IndexError, gm1\<lparr>deck := rest\<rparr>)
                         | new_card # _ \<Rightarrow>
                             (Inr True,
                              gm1\<lparr>players := (players gm)[i := player\<lparr>influence :=
                                     hand1 @ [\<lparr>role = new_card, is_revealed = False\<rparr>]\<rparr>],
                                   deck := rest\<rparr>)))))"

text \<open>
  \<^verbatim>\<open>exchange_two_cards\<close>; \<open>select\<close> is the player's \<^verbatim>\<open>select_cards_to_keep\<close>.
  The two cards are drawn before the selection is asked for and checked.
\<close>

definition exchange_two_cards ::
  "(Role list \<Rightarrow> Role list \<Rightarrow> nat \<Rightarrow> Role list) \<Rightarrow> (nat \<Rightarrow> nat) \<Rightarrow> nat \<Rightarrow> GameManager
     \<Rightarrow> (error + bool) \<times> GameManager" where
  "exchange_two_cards select rnd i gm =
     (let player = players gm ! i;
          hidden = get_hidden_cards player;
          keep_count = length hidden in
      if keep_count = 0 then (Inl ValueError, gm)
      else (case draw 2 (deck gm) of
              Inl e \<Rightarrow> (Inl e, gm)
            | Inr (new_cards, rest) \<Rightarrow>
                (let gm1 = gm\<lparr>deck := rest\<rparr>;
                     selected = select new_cards (map role hidden) keep_count in
                 if length selected \<noteq> keep_count then (Inl ValueError, gm1)
                 else (let hand1 = foldl (\<lambda>hand card. remove1 card hand) (influence player) hidden;
                           hand2 = hand1 @ map (\<lambda>c. \<lparr>role = c, is_revealed = False\<rparr>) selected;
                           all_cards = new_cards @ map role hidden;
                           returned = filter (\<lambda>c. \<not> List.member selected c) all_cards;
                           gm2 = gm1\<lparr>players := (players gm)[i := player\<lparr>influence := hand2\<rparr>]\<rparr>
                       in if returned \<noteq> [] then
                            (Inr True, gm2\<lparr>deck := return_cards rnd returned rest\<rparr>)
                          else (Inr True, gm2)))))"

definition player_lose_influence ::
  "nat \<Rightarrow> nat \<Rightarrow> GameManager \<Rightarrow> (error + Role option) \<times> GameManager" where
  "player_lose_influence pick i gm =
     (case lose_influence pick (players gm ! i) of
        Inl e \<Rightarrow> (Inl e, gm)
      | Inr (r, p') \<Rightarrow> (Inr r, gm\<lparr>players := (players gm)[i := p']\<rparr>))"

text \<open>
  \<^verbatim>\<open>GameManager.deal_challenge\<close>: \<open>pl1\<close> is the accused, \<open>pl2\<close> the accuser.
  \<open>will_prove\<close> is the answer of \<^verbatim>\<open>pl1.deal_challenge()\<close>, asked only when the accused
  holds the role face-down; \<open>pick\<close> is the choice of whoever loses an influence.
\<close>

definition deal_challenge ::
  "bool \<Rightarrow> nat \<Rightarrow> (nat \<Rightarrow> nat) \<Rightarrow> nat \<Rightarrow> nat \<Rightarrow> Role \<Rightarrow> GameManager
     \<Rightarrow> (error + bool) \<times> GameManager" where
  "deal_challenge will_prove pick rnd pl1 pl2 r gm =
     (if \<not> has_hidden_role (players gm ! pl1) r then
        (case player_lose_influence pick pl1 gm of
           (Inl e, gm1) \<Rightarrow> (Inl e, gm1)
         | (Inr _, gm1) \<Rightarrow> (Inr True, gm1))
      else if will_prove then
        (case exchange_single_card rnd pl1 r gm of
           (Inl e, gm1) \<Rightarrow> (Inl e, gm1)
         | (Inr _, gm1) \<Rightarrow>
             (case player_lose_influence pick pl2 gm1 of
                (Inl e, gm2) \<Rightarrow> (Inl e, gm2)
              | (Inr _, gm2) \<Rightarrow> (Inr False, gm2)))
      else
        (case player_lose_influence pick pl1 gm of
           (Inl e, gm1) \<Rightarrow> (Inl e, gm1)
         | (Inr _, gm1) \<Rightarrow> (Inr True, gm1)))"

definition process_action_cost ::
  "nat \<Rightarrow> ActionType \<Rightarrow> GameManager \<Rightarrow> (error + (bool \<times> int)) \<times> GameManager" where
  "process_action_cost i action gm =
     (let cost = coins_cost (ACTION_CONFIG action) in
      if cost = 0 then (Inr (True, 0), gm)
      else if coins (players gm ! i) < cost then (Inl ValueError, gm)
      else (Inr (True, cost), update_player i (lose_coin cost) gm))"

definition alive_players :: "GameManager \<Rightarrow> Player list" where
  "alive_players gm = filter is_alive (players gm)"

definition is_game_over :: "GameManager \<Rightarrow> bool" where
  "is_game_over gm = (length (alive_players gm) \<le> 1)"

record TargetInfo =
  target_player_id :: int
  target_coins :: int
  target_hidden_cards :: nat

definition get_target_list :: "GameManager \<Rightarrow> TargetInfo list" where
  "get_target_list gm =
     map (\<lambda>i. \<lparr>target_player_id = player_id (players gm ! i),
               target_coins = coins (players gm ! i),
               target_hidden_cards = length (get_hidden_cards (players gm ! i))\<rparr>)
       (filter (\<lambda>i. i \<noteq> current_player_index gm \<and> is_alive (players gm ! i))
          [0..<length (players gm)])"

section \<open>One turn of \<^verbatim>\<open>run_game\<close>\<close>

text \<open>
  The decision-makers (console input or the random policy) are outside the engine. Their
  answers are given by number: the \<open>k\<close>-th request made during a run is answered by the
  \<open>k\<close>-th value of the field for that kind of request, so any sequence of answers, also
  one that depends on what was asked before, is some value of this record.
  \<^verbatim>\<open>get_player_choice\<close> of both player classes returns a dictionary with an action and
  a target id that may be \<^verbatim>\<open>None\<close>.
\<close>

record Decisions =
  choice_of :: "nat \<Rightarrow> ActionType \<times> int option"
  challenge_of :: "nat \<Rightarrow> bool"
  proof_of :: "nat \<Rightarrow> bool"
  reveal_of :: "nat \<Rightarrow> nat"
  answer_of :: "nat \<Rightarrow> Role option"
  keep_of :: "nat \<Rightarrow> Role list \<Rightarrow> Role list \<Rightarrow> nat \<Rightarrow> Role list"
  rand_of :: "nat \<Rightarrow> nat \<Rightarrow> nat"

datatype Outcome = ClaimDisproven | CounterStands | Executed bool

definition asked :: "Event \<Rightarrow> GameManager \<Rightarrow> GameManager" where
  "asked ev gm = gm\<lparr>tick := tick gm + 1, trace := trace gm @ [ev]\<rparr>"

text \<open>
  The seats \<^verbatim>\<open>(base + offset) % total_player_num\<close> for \<^verbatim>\<open>offset\<close> from 1 to the
  number of players.
\<close>

definition seat_order :: "nat \<Rightarrow> int \<Rightarrow> nat list" where
  "seat_order n base = map (\<lambda>offset. nat ((base + int offset) mod int n)) [1..<n + 1]"

text \<open>
  The polling loop that the source writes three times: walk the seats, skip the player
  \<open>skip\<close> and the dead, ask \<^verbatim>\<open>challenge_or_not(accused, r)\<close> and stop at the first yes.
\<close>

fun poll_challenge ::
  "Decisions \<Rightarrow> nat \<Rightarrow> nat \<Rightarrow> Role \<Rightarrow> nat list \<Rightarrow> GameManager \<Rightarrow> nat option \<times> GameManager" where
  "poll_challenge D skip accused r [] gm = (None, gm)"
| "poll_challenge D skip accused r (idx # rest) gm =
     (if idx = skip then poll_challenge D skip accused r rest gm
      else if \<not> is_alive (players gm ! idx) then poll_challenge D skip accused r rest gm
      else if challenge_of D (tick gm) then (Some idx, asked (Asked_challenge idx accused r) gm)
      else poll_challenge D skip accused r rest (asked (Asked_challenge idx accused r) gm))"

definition resolve_challenge ::
  "Decisions \<Rightarrow> nat \<Rightarrow> nat \<Rightarrow> Role \<Rightarrow> GameManager \<Rightarrow> (error + bool) \<times> GameManager" where
  "resolve_challenge D pl1 pl2 r gm =
     deal_challenge (proof_of D (tick gm)) (reveal_of D (tick gm)) (rand_of D (tick gm))
       pl1 pl2 r (asked (Resolved pl1 pl2 r) gm)"

text \<open>
  \<^verbatim>\<open>target_answer\<close> of both player classes returns \<^verbatim>\<open>None\<close> at once for an action
  that nothing counters, and otherwise the player's answer.
\<close>

definition target_answer ::
  "Decisions \<Rightarrow> nat \<Rightarrow> ActionType \<Rightarrow> GameManager \<Rightarrow> Role option \<times> GameManager" where
  "target_answer D i action gm =
     (if counterable_by (ACTION_CONFIG action) = [] then (None, asked (Asked_counter i action) gm)
      else (answer_of D (tick gm), asked (Asked_counter i action) gm))"

definition advance :: "GameManager \<Rightarrow> (error + unit) \<times> GameManager" where
  "advance gm =
     (case get_current_player gm of
        (Inl e, gm1) \<Rightarrow> (Inl e, gm1)
      | (Inr _, gm1) \<Rightarrow> (Inr (), gm1\<lparr>turn_count := turn_count gm1 + 1\<rparr>))"

definition claim_phase ::
  "Decisions \<Rightarrow> ActionType \<Rightarrow> GameManager \<Rightarrow> (error + bool) \<times> GameManager" where
  "claim_phase D action gm =
     (case required_role (ACTION_CONFIG action) of
        None \<Rightarrow> (Inr False, gm)
      | Some r \<Rightarrow>
          (let cur = current_player_index gm in
           case poll_challenge D cur cur r (seat_order (length (players gm)) (int cur)) gm of
             (None, gm1) \<Rightarrow> (Inr False, gm1)
           | (Some challenger, gm1) \<Rightarrow> resolve_challenge D cur challenger r gm1))"

text \<open>
  The branch of lines 1189 to 1245, which the source attaches to \<^verbatim>\<open>if target_choice:\<close>.
  Its \<^verbatim>\<open>continue\<close> statements stand inside the \<^verbatim>\<open>for offset\<close> loop, so they go on
  with the next seat, counted from the player index that \<^verbatim>\<open>get_current_player\<close> has
  just moved; \<^verbatim>\<open>break\<close> leaves the loop.
\<close>

fun undirected_counter ::
  "Decisions \<Rightarrow> ActionType \<Rightarrow> nat list \<Rightarrow> GameManager \<Rightarrow> (error + unit) \<times> GameManager" where
  "undirected_counter D action [] gm = (Inr (), gm)"
| "undirected_counter D action (offset # rest) gm =
     (let n = length (players gm);
          idx = (current_player_index gm + offset) mod n in
      if idx = current_player_index gm then undirected_counter D action rest gm
      else if \<not> is_alive (players gm ! idx) then undirected_counter D action rest gm
      else
        (case target_answer D idx action gm of
           (None, gm1) \<Rightarrow> undirected_counter D action rest gm1
         | (Some counter_choice, gm1) \<Rightarrow>
             (case poll_challenge D idx idx counter_choice
                     (seat_order n (int (current_player_index gm1))) gm1 of
                (Some co_challenger, gm2) \<Rightarrow>
                  (case resolve_challenge D idx co_challenger counter_choice gm2 of
                     (Inl e, gm3) \<Rightarrow> (Inl e, gm3)
                   | (Inr result, gm3) \<Rightarrow>
                       if \<not> result then
                         (case advance gm3 of
                            (Inl e, gm4) \<Rightarrow> (Inl e, gm4)
                          | (Inr _, gm4) \<Rightarrow> undirected_counter D action rest gm4)
                       else (Inr (), gm3))
              | (None, gm2) \<Rightarrow>
                  (case advance gm2 of
                     (Inl e, gm4) \<Rightarrow> (Inl e, gm4)
                   | (Inr _, gm4) \<Rightarrow> undirected_counter D action rest gm4))))"

text \<open>
  Lines 1137 to 1245. The result is \<open>True\<close> when a counter stands and the turn ends
  (the \<^verbatim>\<open>continue\<close> of the \<^verbatim>\<open>while\<close> loop), \<open>False\<close> when control reaches
  \<^verbatim>\<open>execute_action\<close>. The test \<^verbatim>\<open>choice["target_id"]\<close> is Python truth: \<^verbatim>\<open>None\<close> and
  \<^verbatim>\<open>0\<close> are false. A missing player object has no method \<^verbatim>\<open>target_answer\<close>.
\<close>

definition truthy :: "int option \<Rightarrow> bool" where
  "truthy v = (case v of None \<Rightarrow> False | Some k \<Rightarrow> k \<noteq> 0)"

definition counter_phase ::
  "Decisions \<Rightarrow> ActionType \<Rightarrow> int option \<Rightarrow> GameManager \<Rightarrow> (error + bool) \<times> GameManager" where
  "counter_phase D action target_id gm =
     (if truthy target_id \<and> counterable_by (ACTION_CONFIG action) \<noteq> [] then
        (case get_player_by_id gm target_id of
           Inl e \<Rightarrow> (Inl e, gm)
         | Inr None \<Rightarrow> (Inl AttributeError, gm)
         | Inr (Some target_player) \<Rightarrow>
             (case target_answer D target_player action gm of
                (Some target_choice, gm1) \<Rightarrow>
                  (case poll_challenge D target_player target_player target_choice
                          (seat_order (length (players gm1))
                             (player_id (players gm1 ! target_player))) gm1 of
                     (Some co_challenger, gm2) \<Rightarrow>
                       (case resolve_challenge D (current_player_index gm2) co_challenger
                               target_choice gm2 of
                          (Inl e, gm3) \<Rightarrow> (Inl e, gm3)
                        | (Inr result, gm3) \<Rightarrow> (Inr (\<not> result), gm3))
                   | (None, gm2) \<Rightarrow> (Inr True, gm2))
              | (None, gm1) \<Rightarrow>
                  if counterable_by (ACTION_CONFIG action) \<noteq> [] then
                    (case undirected_counter D action [1..<length (players gm1) + 1] gm1 of
                       (Inl e, gm2) \<Rightarrow> (Inl e, gm2)
                     | (Inr _, gm2) \<Rightarrow> (Inr False, gm2))
                  else (Inr False, gm1)))
      else (Inr False, gm))"

text \<open>
  \<^verbatim>\<open>execute_action\<close> with the seven handlers; every action has a handler. A handler
  that finds no player object for the target returns \<open>False\<close>.
\<close>

definition execute_action ::
  "Decisions \<Rightarrow> nat \<Rightarrow> ActionType \<Rightarrow> int option \<Rightarrow> GameManager \<Rightarrow> (error + bool) \<times> GameManager" where
  "execute_action D actor action target_id gm =
     (let t = tick gm; gm0 = gm\<lparr>tick := t + 1\<rparr> in
      case action of
        INCOME \<Rightarrow> (Inr True, update_player actor (get_coin 1) gm0)
      | FOREIGN_AID \<Rightarrow> (Inr True, update_player actor (get_coin 2) gm0)
      | TAX \<Rightarrow> (Inr True, update_player actor (get_coin 3) gm0)
      | STEAL \<Rightarrow>
          (case get_player_by_id gm0 target_id of
             Inl e \<Rightarrow> (Inl e, gm0)
           | Inr None \<Rightarrow> (Inr False, gm0)
           | Inr (Some target) \<Rightarrow>
               (let stolen = min 2 (coins (players gm0 ! target));
                    gm1 = update_player target (lose_coin stolen) gm0
                in (Inr True, update_player actor (get_coin stolen) gm1)))
      | ASSASSINATE \<Rightarrow>
          (case get_player_by_id gm0 target_id of
             Inl e \<Rightarrow> (Inl e, gm0)
           | Inr None \<Rightarrow> (Inr False, gm0)
           | Inr (Some target) \<Rightarrow>
               (case player_lose_influence (reveal_of D t) target gm0 of
                  (Inl e, gm1) \<Rightarrow> (Inl e, gm1)
                | (Inr _, gm1) \<Rightarrow> (Inr True, gm1)))
      | COUP \<Rightarrow>
          (case get_player_by_id gm0 target_id of
             Inl e \<Rightarrow> (Inl e, gm0)
           | Inr None \<Rightarrow> (Inr False, gm0)
           | Inr (Some target) \<Rightarrow>
               (case player_lose_influence (reveal_of D t) target gm0 of
                  (Inl e, gm1) \<Rightarrow> (Inl e, gm1)
                | (Inr _, gm1) \<Rightarrow> (Inr True, gm1)))
      | EXCHANGE \<Rightarrow>
          (case exchange_two_cards (keep_of D t) (rand_of D t) actor gm0 of
             (Inl e, gm1) \<Rightarrow> (Inl e, gm1)
           | (Inr _, gm1) \<Rightarrow> (Inr True, gm1)))"

text \<open>
  The turn from the cost phase on (lines 1133 to 1253), and the whole body of the
  \<^verbatim>\<open>while\<close> loop of \<^verbatim>\<open>run_game\<close>. Nothing stands between the player's choice and the
  claim-challenge phase.
\<close>

definition after_claim ::
  "Decisions \<Rightarrow> ActionType \<Rightarrow> int option \<Rightarrow> GameManager \<Rightarrow> (error + Outcome) \<times> GameManager" where
  "after_claim D action target_id gm =
     (case process_action_cost (current_player_index gm) action gm of
        (Inl e, gm1) \<Rightarrow> (Inl e, gm1)
      | (Inr _, gm1) \<Rightarrow>
          (case counter_phase D action target_id gm1 of
             (Inl e, gm2) \<Rightarrow> (Inl e, gm2)
           | (Inr True, gm2) \<Rightarrow>
               (case advance gm2 of
                  (Inl e, gm3) \<Rightarrow> (Inl e, gm3)
                | (Inr _, gm3) \<Rightarrow> (Inr CounterStands, gm3))
           | (Inr False, gm2) \<Rightarrow>
               (case execute_action D (current_player_index gm2) action target_id gm2 of
                  (Inl e, gm3) \<Rightarrow> (Inl e, gm3)
                | (Inr done, gm3) \<Rightarrow>
                    (case advance gm3 of
                       (Inl e, gm4) \<Rightarrow> (Inl e, gm4)
                     | (Inr _, gm4) \<Rightarrow> (Inr (Executed done), gm4)))))"

definition run_turn :: "Decisions \<Rightarrow> GameManager \<Rightarrow> (error + Outcome) \<times> GameManager" where
  "run_turn D gm =
     (case choice_of D (tick gm) of
        (action, target_id) \<Rightarrow>
          (case claim_phase D action (gm\<lparr>tick := tick gm + 1\<rparr>) of
             (Inl e, gm1) \<Rightarrow> (Inl e, gm1)
           | (Inr True, gm1) \<Rightarrow>
               (case advance gm1 of
                  (Inl e, gm2) \<Rightarrow> (Inl e, gm2)
                | (Inr _, gm2) \<Rightarrow> (Inr ClaimDisproven, gm2))
           | (Inr False, gm1) \<Rightarrow> after_claim D action target_id gm1))"

section \<open>Sequences of engine operations\<close>

text \<open>
  The operations through which the engine changes a player or the deck: turning a card
  face-up, the two coin methods, the loss of an influence, the two exchanges, the
  resolution of a challenge and a whole turn. Each yields the state it leaves behind,
  whether it returned or raised.
\<close>

datatype EngineOp =
    Op_reveal nat nat
  | Op_get_coin nat int
  | Op_lose_coin nat int
  | Op_lose_influence nat nat
  | Op_exchange_single "nat \<Rightarrow> nat" nat Role
  | Op_exchange_two "Role list \<Rightarrow> Role list \<Rightarrow> nat \<Rightarrow> Role list" "nat \<Rightarrow> nat" nat
  | Op_deal_challenge bool nat "nat \<Rightarrow> nat" nat nat Role
  | Op_turn Decisions

fun apply_op :: "EngineOp \<Rightarrow> GameManager \<Rightarrow> GameManager" where
  "apply_op (Op_reveal i k) gm =
     update_player i (\<lambda>p. p\<lparr>influence := (influence p)[k := reveal (influence p ! k)]\<rparr>) gm"
| "apply_op (Op_get_coin i n) gm = update_player i (get_coin n) gm"
| "apply_op (Op_lose_coin i n) gm = update_player i (lose_coin n) gm"
| "apply_op (Op_lose_influence pick i) gm = snd (player_lose_influence pick i gm)"
| "apply_op (Op_exchange_single rnd i r) gm = snd (exchange_single_card rnd i r gm)"
| "apply_op (Op_exchange_two select rnd i) gm = snd (exchange_two_cards select rnd i gm)"
| "apply_op (Op_deal_challenge will_prove pick rnd pl1 pl2 r) gm =
     snd (deal_challenge will_prove pick rnd pl1 pl2 r gm)"
| "apply_op (Op_turn D) gm = snd (run_turn D gm)"

definition run_ops :: "EngineOp list \<Rightarrow> GameManager \<Rightarrow> GameManager" where
  "run_ops ops gm = foldl (\<lambda>g op. apply_op op g) gm ops"

text \<open>The cards in play: the deck and every hand, face-up cards included.\<close>

definition total_cards :: "GameManager \<Rightarrow> nat" where
  "total_cards gm = remaining (deck gm) + sum_list (map (\<lambda>p. length (influence p)) (players gm))"

section \<open>A game of three players\<close>

text \<open>
  Three players and fifteen cards, three of each role. Player 0 has lost a Contessa;
  the other hands are untouched.
\<close>

definition face_down :: "Role \<Rightarrow> Influence" where
  "face_down r = \<lparr>role = r, is_revealed = False\<rparr>"

definition face_up :: "Role \<Rightarrow> Influence" where
  "face_up r = \<lparr>role = r, is_revealed = True\<rparr>"

definition example_game :: GameManager where
  "example_game =
     \<lparr>deck = [ASSASSIN, ASSASSIN, CAPTAIN, AMBASSADOR, AMBASSADOR, CONTESSA, DUKE, CAPTAIN, DUKE],
      players =
        [\<lparr>player_id = 0, coins = 2, influence = [face_down DUKE, face_up CONTESSA]\<rparr>,
         \<lparr>player_id = 1, coins = 2, influence = [face_down ASSASSIN, face_down CAPTAIN]\<rparr>,
         \<lparr>player_id = 2, coins = 2, influence = [face_down AMBASSADOR, face_down CONTESSA]\<rparr>],
      current_player_index = 0, turn_count = 1, tick = 0, trace = []\<rparr>"

text \<open>Decision-makers that never challenge, never counter and always prove.\<close>

definition quiet :: "ActionType \<Rightarrow> int option \<Rightarrow> Decisions" where
  "quiet action target_id =
     \<lparr>choice_of = (\<lambda>_. (action, target_id)), challenge_of = (\<lambda>_. False),
      proof_of = (\<lambda>_. True), reveal_of = (\<lambda>_. 0), answer_of = (\<lambda>_. None),
      keep_of = (\<lambda>_. computer_select_cards_to_keep), rand_of = (\<lambda>_ _. 0)\<rparr>"

section \<open>Facts about the deck and the hand\<close>

lemma length_shuffle_from [simp]: "length (shuffle_from rnd i xs) = length xs"
  by (induction i arbitrary: xs) (simp_all add: Let_def)

lemma mset_shuffle_from: "i < length xs \<Longrightarrow> mset (shuffle_from rnd i xs) = mset xs"
proof (induction i arbitrary: xs)
  case 0
  then show ?case by simp
next
  case (Suc i)
  let ?j = "rnd (Suc i) mod (Suc i + 1)"
  have j: "?j < length xs" 
  proof -
    have "?j < Suc i + 1" by (rule mod_less_divisor) simp
    then show ?thesis using Suc.prems by linarith
  qed
  have "mset (xs[Suc i := xs ! ?j, ?j := xs ! Suc i]) = mset xs"
    using j Suc.prems by (rule mset_swap)
  moreover have "i < length (xs[Suc i := xs ! ?j, ?j := xs ! Suc i])"
    using Suc.prems by simp
  ultimately show ?case using Suc.IH by (simp add: Let_def)
qed

lemma length_shuffle [simp]: "length (shuffle rnd xs) = length xs"
  by (simp add: shuffle_def)

lemma mset_shuffle [simp]: "mset (shuffle rnd xs) = mset xs"
  by (cases xs) (simp_all add: shuffle_def mset_shuffle_from)

lemma Influence_eq: "(c :: Influence) = \<lparr>role = role c, is_revealed = is_revealed c\<rparr>"
  by simp

lemma find_hidden_role:
  "list_ex (\<lambda>i. role i = r \<and> \<not> is_revealed i) cs \<Longrightarrow>
   find (\<lambda>card. role card = r) (filter (\<lambda>i. \<not> is_revealed i) cs) = Some \<lparr>role = r, is_revealed = False\<rparr>"
  by (induction cs) auto

lemma hidden_member:
  "list_ex (\<lambda>i. role i = r \<and> \<not> is_revealed i) cs \<Longrightarrow> \<lparr>role = r, is_revealed = False\<rparr> \<in> set cs"
  by (induction cs) auto

lemma draw_one: "cards \<noteq> [] \<Longrightarrow> draw (Suc 0) cards = Inr ([last cards], butlast cards)"
  by (cases cards rule: rev_cases) (simp_all add: draw_def butlast_conv_take)

lemma draw_two:
  "2 \<le> length cards \<Longrightarrow>
   draw 2 cards = Inr (take 2 (rev cards), take (length cards - 2) cards)"
  by (simp add: draw_def)

lemma length_remove1_mem: "x \<in> set xs \<Longrightarrow> length (remove1 x xs) + 1 = length xs"
  by (induction xs) auto

section \<open>Facts about the operations on one player\<close>

lemma find_no_hidden_role:
  "\<not> list_ex (\<lambda>i. role i = r \<and> \<not> is_revealed i) cs \<Longrightarrow>
   find (\<lambda>card. role card = r) (filter (\<lambda>i. \<not> is_revealed i) cs) = None"
  by (induction cs) auto

lemma exchange_single_card_eq:
  "exchange_single_card rnd i r gm =
     (if has_hidden_role (players gm ! i) r then
        (Inr True,
         gm\<lparr>players := (players gm)[i := (players gm ! i)\<lparr>influence :=
                remove1 \<lparr>role = r, is_revealed = False\<rparr> (influence (players gm ! i))
                  @ [\<lparr>role = last (shuffle rnd (deck gm @ [r])), is_revealed = False\<rparr>]\<rparr>],
            deck := butlast (shuffle rnd (deck gm @ [r]))\<rparr>)
      else (Inr False, gm))"
proof (cases "has_hidden_role (players gm ! i) r")
  case True
  let ?p = "players gm ! i"
  let ?d = "shuffle rnd (deck gm @ [r])"
  have ex: "list_ex (\<lambda>c. role c = r \<and> \<not> is_revealed c) (influence ?p)"
    using True by (simp add: has_hidden_role_def)
  have found: "find (\<lambda>card. role card = r) (get_hidden_cards ?p)
      = Some \<lparr>role = r, is_revealed = False\<rparr>"
    using ex by (simp add: get_hidden_cards_def find_hidden_role)
  have ne: "get_hidden_cards ?p \<noteq> []" using found by auto
  have dne: "?d \<noteq> []"
    by (metis length_shuffle length_greater_0_conv length_append_singleton zero_less_Suc)
  show ?thesis
    using True ne found dne
    by (simp add: exchange_single_card_def Let_def return_cards_def draw_one)
next
  case False
  then have "find (\<lambda>card. role card = r) (get_hidden_cards (players gm ! i)) = None"
    by (simp add: has_hidden_role_def get_hidden_cards_def find_no_hidden_role)
  then show ?thesis using False by (simp add: exchange_single_card_def Let_def)
qed

lemma hidden_count_reveal:
  "k < length (filter (\<lambda>c. \<not> is_revealed c) cs) \<Longrightarrow>
   length (filter (\<lambda>c. \<not> is_revealed c) (reveal_nth_hidden k cs)) + 1
     = length (filter (\<lambda>c. \<not> is_revealed c) cs)"
  by (induction cs arbitrary: k) (auto simp: reveal_def split: nat.splits)

lemma reveal_nth_hidden_dead:
  "list_all is_revealed cs \<Longrightarrow> list_all is_revealed (reveal_nth_hidden k cs)"
  by (induction cs arbitrary: k) auto

lemma lose_influence_shape:
  "lose_influence pick p = Inr (r, p') \<Longrightarrow>
   \<exists>k. p' = p \<or> p' = p\<lparr>influence := reveal_nth_hidden k (influence p)\<rparr>"
  by (auto simp: lose_influence_def Let_def split: if_splits)

lemma lose_influence_coins:
  "lose_influence pick p = Inr (r, p') \<Longrightarrow> coins p' = coins p"
  by (auto simp: lose_influence_def Let_def split: if_splits)

lemma lose_influence_dead:
  "lose_influence pick p = Inr (r, p') \<Longrightarrow> \<not> is_alive p \<Longrightarrow> \<not> is_alive p'"
  by (auto simp: lose_influence_def Let_def is_alive_def reveal_nth_hidden_dead split: if_splits)

lemma lose_influence_count:
  assumes "length (get_hidden_cards p) = 1 \<or> pick < length (get_hidden_cards p)"
  shows "\<exists>r p'. lose_influence pick p = Inr (r, p')
      \<and> length (get_hidden_cards p') + 1 = length (get_hidden_cards p)
      \<and> coins p' = coins p \<and> player_id p' = player_id p"
proof (cases "length (get_hidden_cards p) = 1")
  case True
  then have "0 < length (filter (\<lambda>c. \<not> is_revealed c) (influence p))"
    by (simp add: get_hidden_cards_def)
  from hidden_count_reveal [OF this] True show ?thesis
    by (auto simp: lose_influence_def Let_def get_hidden_cards_def)
next
  case False
  with assms have lt: "pick < length (filter (\<lambda>c. \<not> is_revealed c) (influence p))"
    by (simp add: get_hidden_cards_def)
  from hidden_count_reveal [OF lt] False lt show ?thesis
    by (auto simp: lose_influence_def Let_def get_hidden_cards_def)
qed

lemma map_coins_update:
  "coins p' = coins (ps ! i) \<Longrightarrow> map coins (ps[i := p']) = map coins ps"
  by (cases "i < length ps") (simp_all add: map_update list_update_same_conv list_update_beyond)

lemma player_lose_influence_coins:
  "map coins (players (snd (player_lose_influence pick i gm))) = map coins (players gm)"
  by (auto simp: player_lose_influence_def map_coins_update lose_influence_coins
      split: sum.splits)

lemma exchange_single_card_coins:
  "map coins (players (snd (exchange_single_card rnd i r gm))) = map coins (players gm)"
  by (simp add: exchange_single_card_eq map_coins_update)

lemma deal_challenge_coins:
  "map coins (players (snd (deal_challenge w pick rnd pl1 pl2 r gm))) = map coins (players gm)"
proof -
  have a: "\<And>g. map coins (players (snd (player_lose_influence pick pl1 g))) = map coins (players g)"
    by (rule player_lose_influence_coins)
  have b: "\<And>g. map coins (players (snd (player_lose_influence pick pl2 g))) = map coins (players g)"
    by (rule player_lose_influence_coins)
  have c: "map coins (players (snd (exchange_single_card rnd pl1 r gm))) = map coins (players gm)"
    by (rule exchange_single_card_coins)
  show ?thesis
    unfolding deal_challenge_def
    using a [of gm] b [of "snd (exchange_single_card rnd pl1 r gm)"] c
    by (auto split: prod.splits sum.splits)
qed

section \<open>Legal actions\<close>

text \<open>
  Claim C4, as amended. The legal actions of a player with fewer than ten coins contain
  income, foreign aid, tax, exchange and steal; they contain the assassination exactly
  when the player has at least three and fewer than ten coins, and the coup exactly when
  the player has at least seven coins; from ten coins on the coup is the only legal action.
\<close>

theorem availability_rule:
  "(coins p < 10 \<longrightarrow>
      {INCOME, FOREIGN_AID, TAX, EXCHANGE, STEAL} \<subseteq> set (get_available_actions p))
   \<and> (ASSASSINATE \<in> set (get_available_actions p) \<longleftrightarrow> 3 \<le> coins p \<and> coins p < 10)
   \<and> (COUP \<in> set (get_available_actions p) \<longleftrightarrow> 7 \<le> coins p)
   \<and> (10 \<le> coins p \<longrightarrow> get_available_actions p = [COUP])"
  by (auto simp: get_available_actions_def Let_def)

theorem availability_rule_witness:
  "coins \<lparr>player_id = 0, coins = 8, influence = []\<rparr> < 10
   \<and> {INCOME, FOREIGN_AID, TAX, EXCHANGE, STEAL}
        \<subseteq> set (get_available_actions \<lparr>player_id = 0, coins = 8, influence = []\<rparr>)
   \<and> ASSASSINATE \<in> set (get_available_actions \<lparr>player_id = 0, coins = 8, influence = []\<rparr>)
   \<and> COUP \<in> set (get_available_actions \<lparr>player_id = 0, coins = 8, influence = []\<rparr>)
   \<and> 10 \<le> coins \<lparr>player_id = 0, coins = 12, influence = []\<rparr>
   \<and> get_available_actions \<lparr>player_id = 0, coins = 12, influence = []\<rparr> = [COUP]"
  using availability_rule [of "\<lparr>player_id = 0, coins = 8, influence = []\<rparr>"]
    availability_rule [of "\<lparr>player_id = 0, coins = 12, influence = []\<rparr>"]
  by simp

text \<open>
  The claim as stated lets every player with three coins or more assassinate; with ten
  coins the list is the coup alone.
\<close>

theorem assassinate_at_ten_counterexample:
  "3 \<le> coins \<lparr>player_id = 0, coins = 10, influence = []\<rparr>
   \<and> ASSASSINATE \<notin> set (get_available_actions \<lparr>player_id = 0, coins = 10, influence = []\<rparr>)"
  by (simp add: get_available_actions_def)

section \<open>The single-card swap\<close>

text \<open>
  Claim C7. When the accused holds the claimed role face-down, the single-card swap
  succeeds; it takes one face-down card of that role out of the hand and appends the
  replacement face-down, the deck gives the replacement and takes the returned card, so
  the hand and the deck keep their sizes; the coins and the id of the accused, every
  other player, the seat on turn and the turn counter are as before.
\<close>

theorem exchange_single_card_frame:
  assumes i: "i < length (players gm)"
    and has: "has_hidden_role (players gm ! i) r"
  shows "\<exists>new_card.
      fst (exchange_single_card rnd i r gm) = Inr True
    \<and> influence (players (snd (exchange_single_card rnd i r gm)) ! i) =
        remove1 \<lparr>role = r, is_revealed = False\<rparr> (influence (players gm ! i))
          @ [\<lparr>role = new_card, is_revealed = False\<rparr>]
    \<and> mset (deck (snd (exchange_single_card rnd i r gm))) + {#new_card#} = mset (deck gm) + {#r#}
    \<and> length (influence (players (snd (exchange_single_card rnd i r gm)) ! i)) =
        length (influence (players gm ! i))
    \<and> remaining (deck (snd (exchange_single_card rnd i r gm))) = remaining (deck gm)
    \<and> coins (players (snd (exchange_single_card rnd i r gm)) ! i) = coins (players gm ! i)
    \<and> player_id (players (snd (exchange_single_card rnd i r gm)) ! i) = player_id (players gm ! i)
    \<and> length (players (snd (exchange_single_card rnd i r gm))) = length (players gm)
    \<and> (\<forall>j. j \<noteq> i \<longrightarrow> players (snd (exchange_single_card rnd i r gm)) ! j = players gm ! j)
    \<and> current_player_index (snd (exchange_single_card rnd i r gm)) = current_player_index gm
    \<and> turn_count (snd (exchange_single_card rnd i r gm)) = turn_count gm"
proof -
  let ?p = "players gm ! i"
  let ?card = "\<lparr>role = r, is_revealed = False\<rparr>"
  let ?d = "shuffle rnd (deck gm @ [r])"
  have ex: "list_ex (\<lambda>c. role c = r \<and> \<not> is_revealed c) (influence ?p)"
    using has by (simp add: has_hidden_role_def)
  have found: "find (\<lambda>card. role card = r) (get_hidden_cards ?p) = Some ?card"
    using ex by (simp add: get_hidden_cards_def find_hidden_role)
  have mem: "?card \<in> set (influence ?p)" using ex by (rule hidden_member)
  have ne: "get_hidden_cards ?p \<noteq> []" using found by auto
  have dne: "?d \<noteq> []" by (metis length_shuffle length_greater_0_conv length_append_singleton zero_less_Suc)
  have run: "exchange_single_card rnd i r gm =
      (Inr True, gm\<lparr>players := (players gm)[i := ?p\<lparr>influence :=
          remove1 ?card (influence ?p) @ [\<lparr>role = last ?d, is_revealed = False\<rparr>]\<rparr>],
        deck := butlast ?d\<rparr>)"
    using ne found dne by (simp add: exchange_single_card_def Let_def return_cards_def draw_one)
  have ms: "mset (butlast ?d) + {#last ?d#} = mset (deck gm) + {#r#}"
  proof -
    have "mset (butlast ?d) + {#last ?d#} = mset (butlast ?d @ [last ?d])" by simp
    also have "\<dots> = mset ?d" using dne by simp
    finally show ?thesis by simp
  qed
  show ?thesis
    apply (rule exI [of _ "last ?d"])
    using i ms length_remove1_mem [OF mem]
    by (simp add: run remaining_def)
qed

theorem exchange_single_card_frame_witness:
  "1 < length (players example_game)
   \<and> has_hidden_role (players example_game ! 1) CAPTAIN
   \<and> fst (exchange_single_card (\<lambda>_. 0) 1 CAPTAIN example_game) = Inr True
   \<and> length (influence (players (snd (exchange_single_card (\<lambda>_. 0) 1 CAPTAIN example_game)) ! 1)) = 2
   \<and> remaining (deck (snd (exchange_single_card (\<lambda>_. 0) 1 CAPTAIN example_game))) = 9
   \<and> coins (players (snd (exchange_single_card (\<lambda>_. 0) 1 CAPTAIN example_game)) ! 1) = 2"
  using exchange_single_card_frame [of 1 example_game CAPTAIN "\<lambda>_. 0"]
  by (auto simp: example_game_def has_hidden_role_def face_down_def remaining_def)

section \<open>A failed exchange\<close>

text \<open>
  Claim C10. When the player has a hidden card, the deck has two cards and the selection
  has the wrong length, the two-card exchange raises the error with every player as
  before, and the deck has lost the two drawn cards.
\<close>

theorem exchange_failure_keeps_drawn_cards:
  assumes "get_hidden_cards (players gm ! i) \<noteq> []"
    and "2 \<le> length (deck gm)"
    and "length (select (take 2 (rev (deck gm))) (map role (get_hidden_cards (players gm ! i)))
           (length (get_hidden_cards (players gm ! i))))
         \<noteq> length (get_hidden_cards (players gm ! i))"
  shows "fst (exchange_two_cards select rnd i gm) = Inl ValueError
    \<and> players (snd (exchange_two_cards select rnd i gm)) = players gm
    \<and> deck (snd (exchange_two_cards select rnd i gm)) = take (length (deck gm) - 2) (deck gm)
    \<and> remaining (deck (snd (exchange_two_cards select rnd i gm))) + 2 = remaining (deck gm)"
  using assms by (simp add: exchange_two_cards_def draw_two Let_def remaining_def)

theorem exchange_failure_keeps_drawn_cards_witness:
  "get_hidden_cards (players example_game ! 0) \<noteq> []
   \<and> 2 \<le> length (deck example_game)
   \<and> length ((\<lambda>_ _ _. []) (take 2 (rev (deck example_game)))
         (map role (get_hidden_cards (players example_game ! 0)))
         (length (get_hidden_cards (players example_game ! 0))) :: Role list)
       \<noteq> length (get_hidden_cards (players example_game ! 0))
   \<and> fst (exchange_two_cards (\<lambda>_ _ _. []) (\<lambda>_. 0) 0 example_game) = Inl ValueError
   \<and> players (snd (exchange_two_cards (\<lambda>_ _ _. []) (\<lambda>_. 0) 0 example_game))
       = players example_game
   \<and> remaining (deck (snd (exchange_two_cards (\<lambda>_ _ _. []) (\<lambda>_. 0) 0 example_game))) = 7"
  using exchange_failure_keeps_drawn_cards [of example_game 0 "\<lambda>_ _ _. []" "\<lambda>_. 0"]
  by (auto simp: example_game_def get_hidden_cards_def face_down_def face_up_def remaining_def)

end
